theory Spec2Isabelle
  imports Main "HOL-Library.Sublist" "HOL-Library.Word"
begin

section \<open>Time\<close>

text \<open>
  \<open>datetime.now()\<close> is a naive wall-clock reading with microsecond resolution. A
  datetime is modelled as the number of microseconds since a fixed origin and a
  timedelta as a signed number of microseconds, so that \<open>a - b\<close> on datetimes and
  the comparison of timedeltas are the integer ones.
\<close>

type_synonym datetime = int
type_synonym timedelta = int

definition timedelta_minutes :: "int \<Rightarrow> timedelta" where
  "timedelta_minutes m = m * 60 * 1000000"

text \<open>
  The \<open>.seconds\<close> attribute of a timedelta. Python normalises a timedelta to
  days, seconds and microseconds with \<open>0 \<le> seconds < 86400\<close> and
  \<open>0 \<le> microseconds < 1000000\<close>; days carries the sign. Integer division in HOL
  rounds towards minus infinity, as Python's does.
\<close>

definition td_seconds :: "timedelta \<Rightarrow> int" where
  "td_seconds d = (d div 1000000) mod 86400"

section \<open>Session state and the rate limiter\<close>

text \<open>
  \<open>st.session_state\<close> holds \<open>last_request_time\<close> (initially \<open>None\<close>) and
  \<open>request_count\<close> (initially 0); app.py lines 16-19.
\<close>

record session_state =
  last_request_time :: "datetime option"
  request_count :: int

definition initial_state :: session_state where
  "initial_state = \<lparr>last_request_time = None, request_count = 0\<rparr>"

definition limit_message :: string where
  "limit_message = ''Rate limit reached. Please wait 1 minute before next analysis.''"

text \<open>
  \<open>can_make_request\<close> (app.py lines 21-34). The clock reading of line 23 is the
  argument \<open>now\<close>; the function returns its pair together with the session state it
  leaves behind, since line 28 writes to it.
\<close>

definition can_make_request :: "datetime \<Rightarrow> session_state \<Rightarrow> (bool \<times> string) \<times> session_state" where
  "can_make_request now s =
     (let s1 = (if (case last_request_time s of
                      None \<Rightarrow> True
                    | Some t \<Rightarrow> now - t > timedelta_minutes 1)
                then s\<lparr>request_count := 0\<rparr> else s)
      in if request_count s1 \<ge> 8
         then ((False, limit_message), s1)
         else ((True, []), s1))"

text \<open>\<open>update_request_tracker\<close> (app.py lines 36-39), with the clock reading of line 38.\<close>

definition update_request_tracker :: "datetime \<Rightarrow> session_state \<Rightarrow> session_state" where
  "update_request_tracker now s =
     s\<lparr>last_request_time := Some now, request_count := request_count s + 1\<rparr>"

section \<open>Strings\<close>

text \<open>
  Python strings are modelled as lists of 8-bit characters, a non-ASCII character by
  the bytes of its UTF-8 encoding. \<open>str.lower()\<close> maps the letters A-Z to a-z; no
  non-ASCII character lower-cases to one of the letters of \<open>quota\<close> or \<open>safety\<close>,
  the only words searched for in a lower-cased string.
\<close>

definition lower_char :: "char \<Rightarrow> char" where
  "lower_char c =
     (let n = (of_char c :: nat)
      in if 65 \<le> n \<and> n \<le> 90 then char_of (n + 32) else c)"

definition lower :: "string \<Rightarrow> string" where
  "lower s = map lower_char s"

text \<open>The substring test \<open>sub in s\<close>.\<close>

fun contains :: "string \<Rightarrow> string \<Rightarrow> bool" where
  "contains sub [] = (sub = [])"
| "contains sub (c # cs) = (prefix sub (c # cs) \<or> contains sub cs)"

text \<open>\<open>str(n)\<close> for a non-negative integer, as the f-string of the report formats it.\<close>

definition digit_char :: "nat \<Rightarrow> char" where
  "digit_char d = char_of (48 + d)"

function py_str :: "nat \<Rightarrow> string" where
  "py_str n = (if n < 10 then [digit_char n] else py_str (n div 10) @ [digit_char (n mod 10)])"
  by pat_completeness auto
termination
  by (relation "measure id") auto

section \<open>Uploaded files, images and the external collaborators\<close>

type_synonym byte = "8 word"

text \<open>The object returned by \<open>st.file_uploader\<close>: its \<open>name\<close> and \<open>getvalue()\<close>.\<close>

record uploaded_file =
  name :: string
  getvalue :: "byte list"

text \<open>
  A PIL image as far as app.py reads it: \<open>mode\<close>, \<open>size\<close> (width, height) and
  \<open>format\<close>, and its pixel data.
\<close>

record pil_image =
  mode :: string
  size_wh :: "nat \<times> nat"
  format :: "string option"
  pixels :: "byte list"

text \<open>
  The response object of \<open>model.generate_content\<close>: \<open>None\<close> for a response without a
  \<open>text\<close> attribute, otherwise its text.
\<close>

datatype response = Response "string option"

text \<open>
  The library calls of app.py are parameters of the model. A call that raises returns
  \<open>Inl\<close> of \<open>str(e)\<close>; \<open>st_image\<close>, the display call \<open>st.image(image, caption)\<close> of
  line 145, returns nothing and so gives \<open>Some\<close> of \<open>str(e)\<close> when it raises.
  \<open>Image.open\<close> reads the header only; the pixel data is decoded by \<open>convert\<close> or by
  the display, and either can raise on data that does not decode.
  \<open>generate_content\<close> returns \<open>Inr None\<close> for a falsy response object; its \<open>Inl\<close>
  also stands for an exception raised when line 190 reads the text of the response,
  which the same handler catches.
\<close>

record collaborators =
  image_open :: "byte list \<Rightarrow> string + pil_image"
  convert :: "pil_image \<Rightarrow> string \<Rightarrow> string + pil_image"
  st_image :: "pil_image \<Rightarrow> string \<Rightarrow> string option"
  generate_content :: "string \<Rightarrow> pil_image \<Rightarrow> string + response option"

definition MEDICAL_PROMPT :: string where
  "MEDICAL_PROMPT =
     ''\<newline>'' @
     ''You are an expert medical image analysis assistant. Please analyze this medical image and provide a structured report with the following sections:\<newline>'' @
     ''\<newline>'' @
     ''## IMAGE TYPE & QUALITY\<newline>'' @
     ''- Identify the type of medical imaging (X-ray, CT, MRI, ultrasound, etc.)\<newline>'' @
     ''- Comment on image quality and visibility\<newline>'' @
     ''\<newline>'' @
     ''## ANATOMICAL STRUCTURES\<newline>'' @
     ''- Describe the main anatomical structures visible\<newline>'' @
     ''- Note their appearance and positioning\<newline>'' @
     ''\<newline>'' @
     ''## OBSERVATIONS\<newline>'' @
     ''- List any notable findings, abnormalities, or areas of concern\<newline>'' @
     ''- Describe any variations from normal appearance\<newline>'' @
     ''- Comment on symmetry, density, or other relevant features\<newline>'' @
     ''\<newline>'' @
     ''## CLINICAL RECOMMENDATIONS\<newline>'' @
     ''- Suggest potential next steps or additional imaging if needed\<newline>'' @
     ''- Recommend consultation with specific specialists if appropriate\<newline>'' @
     ''\<newline>'' @
     ''## IMPORTANT LIMITATIONS\<newline>'' @
     ''- Note any limitations in the analysis due to image quality or viewing angle\<newline>'' @
     ''- Mention areas that require clinical correlation\<newline>'' @
     ''\<newline>'' @
     ''Please provide me an output response with these 4 headings Detailed Analysis, Findings Report,  Recommendations and Next Steps, Treatment suggestions\<newline>''"

section \<open>Image intake\<close>

definition max_size :: nat where
  "max_size = 5 * 1024 * 1024"

text \<open>The mode normalisation of app.py lines 139-140 and again lines 184-185.\<close>

definition to_rgb :: "collaborators \<Rightarrow> pil_image \<Rightarrow> string + pil_image" where
  "to_rgb ext img = (if mode img \<noteq> ''RGB'' then convert ext img ''RGB'' else Inr img)"

datatype validation_error = TooLarge | Undecodable string

text \<open>
  The caption of line 145: the clipboard sign (four bytes in UTF-8), a space and the
  name of the upload.
\<close>

definition caption :: "uploaded_file \<Rightarrow> string" where
  "caption f = [CHR 0xF0, CHR 0x9F, CHR 0x93, CHR 0x8B] @ '' '' @ name f"

text \<open>
  app.py lines 127-154: the size check stops the script with the size error; an
  exception anywhere in the \<open>try\<close> of lines 135-154 (opening, converting, displaying)
  stops it with \<open>Cannot load image\<close> and the message.
\<close>

definition image_intake :: "collaborators \<Rightarrow> uploaded_file \<Rightarrow> validation_error + pil_image" where
  "image_intake ext f =
     (let file_size = length (getvalue f)
      in if file_size > max_size then Inl TooLarge
         else case image_open ext (getvalue f) of
                Inl e \<Rightarrow> Inl (Undecodable e)
              | Inr opened \<Rightarrow>
                  (case to_rgb ext opened of
                     Inl e \<Rightarrow> Inl (Undecodable e)
                   | Inr img \<Rightarrow>
                       (case st_image ext img (caption f) of
                          Some e \<Rightarrow> Inl (Undecodable e)
                        | None \<Rightarrow> Inr img)))"

section \<open>Outcome classification and the report\<close>

text \<open>
  The four failure messages of app.py: \<open>No analysis generated\<close> (line 223),
  \<open>API rate limit exceeded\<close> (line 229), \<open>Image was flagged by safety filters\<close>
  (line 233) and \<open>Analysis failed\<close> with the message (line 237).
\<close>

datatype failure_kind = EmptyResponse | ProviderRateLimited | SafetyRejected | ProviderError string

text \<open>The exception handler of app.py lines 225-238.\<close>

definition classify_error :: "string \<Rightarrow> failure_kind" where
  "classify_error error_msg =
     (if contains ''429'' error_msg \<or> contains ''quota'' (lower error_msg) then ProviderRateLimited
      else if contains ''safety'' (lower error_msg) then SafetyRejected
      else ProviderError error_msg)"

definition DISCLAIMER :: string where
  "DISCLAIMER =
     ''DISCLAIMER: This AI-generated analysis is for educational and informational purposes only. \<newline>'' @
     ''It should not be used as a substitute for professional medical advice, diagnosis, or treatment. \<newline>'' @
     ''Always consult qualified healthcare professionals for medical decisions.\<newline>''"

text \<open>
  The f-string of app.py lines 200-211. \<open>generated\<close> is the formatted clock reading of
  line 201; the multiplication sign between width and height is the two bytes of its
  UTF-8 encoding.
\<close>

definition report_content :: "string \<Rightarrow> string \<Rightarrow> nat \<times> nat \<Rightarrow> string \<Rightarrow> string" where
  "report_content generated file_name sz response_text =
     ''MEDICAL IMAGE ANALYSIS REPORT\<newline>'' @
     ''Generated: '' @ generated @ ''\<newline>'' @
     ''Image: '' @ file_name @ ''\<newline>'' @
     ''Size: '' @ py_str (fst sz) @ '' '' @ [CHR 0xC3, CHR 0x97] @ '' '' @ py_str (snd sz) @ '' pixels\<newline>'' @
     ''\<newline>'' @
     response_text @ ''\<newline>'' @
     ''\<newline>'' @
     ''---\<newline>'' @
     DISCLAIMER"

section \<open>The analysis flow\<close>

text \<open>
  What one run of the script reads from outside: whether the button was clicked, the
  clock readings of lines 23, 166 and 38, and the formatted readings of lines 199 and 201.
\<close>

record run_inputs =
  clicked :: bool
  t_check :: datetime
  t_wait :: datetime
  t_record :: datetime
  ts_file :: string
  ts_generated :: string

datatype effect = Sleep nat | GenerateContent string pil_image

text \<open>
  The ways a run ends: stopped by intake; the rate-limit warning with the seconds to
  wait; the button shown and not clicked; the report shown with its download (text,
  report content, file name); one of the failure messages. \<open>Crashed\<close> is the
  \<open>TypeError\<close> line 166 raises should \<open>last_request_time\<close> be \<open>None\<close> there.
\<close>

datatype outcome =
    NoUpload
  | Invalid validation_error
  | Denied string int
  | Crashed
  | Idle
  | Succeeded string string string
  | Failed failure_kind

text \<open>
  The body of the \<open>try\<close> of app.py after the tracker update, lines 178-238: the
  outcome and the external effects in the order they happen.
\<close>

definition call_model :: "collaborators \<Rightarrow> run_inputs \<Rightarrow> uploaded_file \<Rightarrow> pil_image \<Rightarrow> outcome \<times> effect list" where
  "call_model ext inp f img =
     (case image_open ext (getvalue f) of
        Inl e \<Rightarrow> (Failed (classify_error e), [Sleep 3])
      | Inr opened \<Rightarrow>
          (case to_rgb ext opened of
             Inl e \<Rightarrow> (Failed (classify_error e), [Sleep 3])
           | Inr pil_image \<Rightarrow>
               (let effs = [Sleep 3, GenerateContent MEDICAL_PROMPT pil_image]
                in case generate_content ext MEDICAL_PROMPT pil_image of
                     Inl e \<Rightarrow> (Failed (classify_error e), effs)
                   | Inr None \<Rightarrow> (Failed EmptyResponse, effs)
                   | Inr (Some (Response None)) \<Rightarrow> (Failed EmptyResponse, effs)
                   | Inr (Some (Response (Some txt))) \<Rightarrow>
                       (if txt \<noteq> []
                        then (Succeeded txt
                                (report_content (ts_generated inp) (name f) (size_wh img) txt)
                                (''medical_analysis_'' @ ts_file inp @ ''.txt''), effs)
                        else (Failed EmptyResponse, effs)))))"

text \<open>app.py lines 125-238 for an uploaded file.\<close>

definition analysis_flow :: "collaborators \<Rightarrow> run_inputs \<Rightarrow> uploaded_file \<Rightarrow> session_state \<Rightarrow> outcome \<times> session_state \<times> effect list" where
  "analysis_flow ext inp f s =
     (case image_intake ext f of
        Inl err \<Rightarrow> (Invalid err, s, [])
      | Inr img \<Rightarrow>
          (case can_make_request (t_check inp) s of
             ((can_request, limit_msg), s1) \<Rightarrow>
               if \<not> can_request then
                 (case last_request_time s1 of
                    None \<Rightarrow> (Crashed, s1, [])
                  | Some t \<Rightarrow> (Denied limit_msg (60 - td_seconds (t_wait inp - t)), s1, []))
               else if clicked inp then
                 (let s2 = update_request_tracker (t_record inp) s1;
                      (out, effs) = call_model ext inp f img
                  in (out, s2, effs))
               else (Idle, s1, [])))"

text \<open>One run of the script: nothing below line 125 runs without an uploaded file.\<close>

definition run :: "collaborators \<Rightarrow> run_inputs \<Rightarrow> uploaded_file option \<Rightarrow> session_state \<Rightarrow> outcome \<times> session_state \<times> effect list" where
  "run ext inp upload s =
     (case upload of
        None \<Rightarrow> (NoUpload, s, [])
      | Some f \<Rightarrow> analysis_flow ext inp f s)"

text \<open>The session states the script can reach from the initial one.\<close>

inductive reachable :: "session_state \<Rightarrow> bool" where
  reachable_init: "reachable initial_state"
| reachable_run: "reachable s \<Longrightarrow> reachable (fst (snd (run ext inp upload s)))"

text \<open>
  The rate limiter alone, for a sequence of clicked requests: each is a pair of the
  clock reading of the check and the one of the tracker update. Returns the decisions.
\<close>

fun attempts :: "(datetime \<times> datetime) list \<Rightarrow> session_state \<Rightarrow> bool list \<times> session_state" where
  "attempts [] s = ([], s)"
| "attempts ((c, r) # cs) s =
     (case can_make_request c s of
        ((ok, msg), s1) \<Rightarrow>
          (case attempts cs (if ok then update_request_tracker r s1 else s1) of
             (oks, s') \<Rightarrow> (ok # oks, s')))"

text \<open>
  The first check of a window finds the counter at zero: it already is, or line 28
  resets it (no request yet, or the last one more than a minute before).
\<close>

definition window_opens :: "datetime \<Rightarrow> session_state \<Rightarrow> bool" where
  "window_opens c s =
     (request_count s = 0 \<or>
      (case last_request_time s of None \<Rightarrow> True | Some t \<Rightarrow> c - t > timedelta_minutes 1))"

text \<open>All clock readings of the requests lie in the 60 seconds that start at \<open>w\<close>.\<close>

definition within_window :: "datetime \<Rightarrow> (datetime \<times> datetime) list \<Rightarrow> bool" where
  "within_window w calls = list_all (\<lambda>(c, r). w \<le> c \<and> c \<le> w + 60 * 1000000 \<and> w \<le> r \<and> r \<le> w + 60 * 1000000) calls"

section \<open>Simulated collaborators\<close>

text \<open>
  Stand-ins for the library calls, to run the flow on concrete inputs: every upload
  decodes to a 100 by 100 grayscale image, the conversion sets the mode (PIL gives the
  converted copy no format), the display succeeds, and the model returns the given
  result. \<open>truncated\<close> is the same with pixel data that does not decode: the header
  opens, and the conversion raises.
\<close>

definition simulated_image :: pil_image where
  "simulated_image = \<lparr>mode = ''L'', size_wh = (100, 100), format = Some ''PNG'', pixels = []\<rparr>"

definition simulated :: "string + response option \<Rightarrow> collaborators" where
  "simulated res =
     \<lparr>image_open = (\<lambda>_. Inr simulated_image),
      convert = (\<lambda>img m. Inr (img\<lparr>mode := m, format := None\<rparr>)),
      st_image = (\<lambda>_ _. None),
      generate_content = (\<lambda>_ _. res)\<rparr>"

definition truncated :: collaborators where
  "truncated = (simulated (Inr None))\<lparr>convert := (\<lambda>_ _. Inl ''image file is truncated'')\<rparr>"

definition simulated_file :: uploaded_file where
  "simulated_file = \<lparr>name = ''scan.png'', getvalue = []\<rparr>"

definition click_at :: "datetime \<Rightarrow> datetime \<Rightarrow> run_inputs" where
  "click_at c r =
     \<lparr>clicked = True, t_check = c, t_wait = c, t_record = r,
      ts_file = ''2026-01-01_10-00-00'', ts_generated = ''2026-01-01 10:00:00''\<rparr>"

section \<open>Properties\<close>

subsection \<open>The rate limiter\<close>

lemma count_after_check:
  "request_count (snd (can_make_request now s)) =
     (if (case last_request_time s of None \<Rightarrow> True | Some t \<Rightarrow> now - t > 60 * 1000000)
      then 0 else request_count s)"
  by (simp add: can_make_request_def timedelta_minutes_def Let_def split: option.splits)

lemma last_after_check:
  "last_request_time (snd (can_make_request now s)) = last_request_time s"
  by (simp add: can_make_request_def Let_def)

lemma allowed_iff_count:
  "fst (fst (can_make_request now s)) \<longleftrightarrow> request_count (snd (can_make_request now s)) < 8"
  by (simp add: can_make_request_def Let_def)

lemma denied_state:
  "\<not> fst (fst (can_make_request now s)) \<Longrightarrow> snd (can_make_request now s) = s"
  by (cases s) (auto simp: can_make_request_def Let_def split: if_splits option.splits)

lemma denied_last:
  "\<not> fst (fst (can_make_request now s)) \<Longrightarrow>
   \<exists>t. last_request_time s = Some t \<and> now - t \<le> 60 * 1000000"
  by (cases "last_request_time s")
     (auto simp: can_make_request_def timedelta_minutes_def Let_def split: if_splits)

lemma count_opens:
  "window_opens now s \<Longrightarrow> request_count (snd (can_make_request now s)) = 0"
  by (auto simp: count_after_check window_opens_def timedelta_minutes_def split: option.splits)

lemma attempts_Cons:
  "attempts ((c, r) # cs) s =
     (let ok = fst (fst (can_make_request c s));
          s1 = snd (can_make_request c s);
          res = attempts cs (if ok then update_request_tracker r s1 else s1)
      in (ok # fst res, snd res))"
  by (simp add: Let_def split: prod.splits)

text \<open>k requests already counted, n more to come, at most 8 in all: every one is allowed.\<close>

lemma attempts_all_allowed:
  "0 \<le> k \<Longrightarrow> request_count s \<le> k \<Longrightarrow> k + int (length calls) \<le> 8 \<Longrightarrow>
   list_all (\<lambda>ok. ok) (fst (attempts calls s))"
proof (induction calls arbitrary: s k)
  case Nil
  then show ?case by simp
next
  case (Cons call calls)
  obtain c r where call: "call = (c, r)" by (cases call)
  let ?s1 = "snd (can_make_request c s)"
  have c1: "request_count ?s1 \<le> k"
    using Cons.prems by (simp add: count_after_check)
  then have ok: "fst (fst (can_make_request c s))"
    using Cons.prems by (simp add: allowed_iff_count)
  have "request_count (update_request_tracker r ?s1) \<le> k + 1"
    using c1 by (simp add: update_request_tracker_def)
  moreover have "0 \<le> k + 1" "k + 1 + int (length calls) \<le> 8"
    using Cons.prems by simp_all
  ultimately have "list_all (\<lambda>ok. ok) (fst (attempts calls (update_request_tracker r ?s1)))"
    using Cons.IH by blast
  then show ?case
    using ok by (simp add: call attempts_Cons Let_def del: attempts.simps)
qed

text \<open>
  Requests that are all allowed and all in one window, after a request of that window:
  no reset happens and each adds one.
\<close>

lemma attempts_count_in_window:
  "last_request_time s = Some t \<Longrightarrow> w \<le> t \<Longrightarrow> within_window w calls \<Longrightarrow>
   list_all (\<lambda>ok. ok) (fst (attempts calls s)) \<Longrightarrow>
   request_count (snd (attempts calls s)) = request_count s + int (length calls) \<and>
   (\<exists>t'. last_request_time (snd (attempts calls s)) = Some t' \<and> w \<le> t')"
proof (induction calls arbitrary: s t)
  case Nil
  then show ?case by simp
next
  case (Cons call calls)
  obtain c r where call: "call = (c, r)" by (cases call)
  let ?s1 = "snd (can_make_request c s)"
  let ?s2 = "update_request_tracker r ?s1"
  from Cons.prems have win: "c \<le> w + 60 * 1000000" "w \<le> r" "within_window w calls"
    by (simp_all add: within_window_def call)
  from Cons.prems(4) have ok: "fst (fst (can_make_request c s))"
    by (simp add: call attempts_Cons Let_def del: attempts.simps)
  with Cons.prems(4) have rest: "list_all (\<lambda>ok. ok) (fst (attempts calls ?s2))"
    by (simp add: call attempts_Cons Let_def del: attempts.simps)
  have c1: "request_count ?s1 = request_count s"
    using Cons.prems(1,2) win(1) by (simp add: count_after_check)
  have s2: "last_request_time ?s2 = Some r" "request_count ?s2 = request_count s + 1"
    using c1 by (simp_all add: update_request_tracker_def)
  from Cons.IH[OF s2(1) win(2,3) rest] s2(2) ok show ?case
    by (simp add: call attempts_Cons Let_def del: attempts.simps)
qed

text \<open>
  C4. \<open>update_request_tracker\<close> sets \<open>last_request_time\<close> to the clock reading and
  adds exactly 1 to \<open>request_count\<close>; calling it once for each reading of a list adds
  exactly the length of the list.
\<close>

theorem update_request_tracker_counts:
  "last_request_time (update_request_tracker now s) = Some now \<and>
   request_count (update_request_tracker now s) = request_count s + 1 \<and>
   request_count (fold update_request_tracker nows s) = request_count s + int (length nows)"
proof -
  have "request_count (fold update_request_tracker nows s) = request_count s + int (length nows)"
    by (induction nows arbitrary: s) (simp_all add: update_request_tracker_def)
  then show ?thesis by (simp add: update_request_tracker_def)
qed

text \<open>
  C1, as amended. When the first check of a window finds the counter at zero (it is
  zero already, or no request was made yet, or the last one is more than 60 seconds
  old and line 28 resets it), that request and up to 7 further ones are all allowed;
  and when they are 8 and all their clock readings lie in one 60-second window, a
  ninth check in that window is denied.
\<close>

theorem budget_of_a_fresh_window:
  assumes opens: "window_opens c s" and len: "length rest < 8"
  shows "list_all (\<lambda>ok. ok) (fst (attempts ((c, r) # rest) s)) \<and>
         (length rest = 7 \<and> within_window w ((c, r) # rest) \<and> w \<le> c9 \<and> c9 \<le> w + 60 * 1000000
            \<longrightarrow> \<not> fst (fst (can_make_request c9 (snd (attempts ((c, r) # rest) s)))))"
proof -
  let ?s1 = "snd (can_make_request c s)"
  let ?s2 = "update_request_tracker r ?s1"
  have c1: "request_count ?s1 = 0" using opens by (rule count_opens)
  then have ok: "fst (fst (can_make_request c s))" by (simp add: allowed_iff_count)
  have s2: "last_request_time ?s2 = Some r" "request_count ?s2 = 1"
    using c1 by (simp_all add: update_request_tracker_def)
  have att: "attempts ((c, r) # rest) s = (True # fst (attempts rest ?s2), snd (attempts rest ?s2))"
    using ok by (simp add: attempts_Cons Let_def del: attempts.simps)
  have all_rest: "list_all (\<lambda>ok. ok) (fst (attempts rest ?s2))"
    using attempts_all_allowed[of 1 ?s2 rest] s2(2) len by simp
  have ninth: "\<not> fst (fst (can_make_request c9 (snd (attempts rest ?s2))))"
    if n: "length rest = 7" and win: "within_window w ((c, r) # rest)"
      and c9: "w \<le> c9" "c9 \<le> w + 60 * 1000000"
  proof -
    from win have wr: "w \<le> r" and wrest: "within_window w rest"
      by (simp_all add: within_window_def)
    from attempts_count_in_window[OF s2(1) wr wrest all_rest] s2(2) n
    obtain t' where fin: "request_count (snd (attempts rest ?s2)) = 8"
      "last_request_time (snd (attempts rest ?s2)) = Some t'" "w \<le> t'"
      by auto
    show ?thesis
      using fin c9 by (simp add: allowed_iff_count count_after_check)
  qed
  have first: "list_all (\<lambda>ok. ok) (fst (attempts ((c, r) # rest) s))"
    using all_rest by (simp add: att del: attempts.simps)
  have last: "snd (attempts ((c, r) # rest) s) = snd (attempts rest ?s2)"
    by (simp add: att del: attempts.simps)
  show ?thesis using first ninth unfolding last by blast
qed

theorem budget_of_a_fresh_window_witness:
  "window_opens 0 initial_state \<and>
   length [(1000000, 1000000), (2000000, 2000000), (3000000, 3000000), (4000000, 4000000),
           (5000000, 5000000), (6000000, 6000000), (7000000, 7000000 :: int)] < 8 \<and>
   list_all (\<lambda>ok. ok)
     (fst (attempts [(0, 0), (1000000, 1000000), (2000000, 2000000), (3000000, 3000000),
                     (4000000, 4000000), (5000000, 5000000), (6000000, 6000000),
                     (7000000, 7000000)] initial_state)) \<and>
   \<not> fst (fst (can_make_request 8000000
     (snd (attempts [(0, 0), (1000000, 1000000), (2000000, 2000000), (3000000, 3000000),
                     (4000000, 4000000), (5000000, 5000000), (6000000, 6000000),
                     (7000000, 7000000)] initial_state))))"
proof -
  let ?rest = "[(1000000, 1000000), (2000000, 2000000), (3000000, 3000000), (4000000, 4000000),
                (5000000, 5000000), (6000000, 6000000), (7000000, 7000000 :: int)]"
  have h1: "window_opens 0 initial_state"
    by (simp add: window_opens_def initial_state_def)
  have h2: "length ?rest < 8" by simp
  have h3: "within_window 0 ((0, 0) # ?rest)" by (simp add: within_window_def)
  from budget_of_a_fresh_window[OF h1 h2, of 0 0 8000000] h3 h1 h2
  show ?thesis by simp
qed

text \<open>
  C1 as stated fails. Eight requests 50 seconds apart from the initial state are all
  allowed and leave the counter at 8, because the counter is reset only after more
  than 60 seconds without a request. The request at 400 seconds is then the only one
  of the 60-second window that starts with it, and it is denied.
\<close>

theorem spaced_requests_denied:
  "length [(400000000, 400000000 :: int)] \<le> 8 \<and>
   within_window 400000000 [(400000000, 400000000)] \<and>
   snd (attempts [(0, 0), (50000000, 50000000), (100000000, 100000000), (150000000, 150000000),
                  (200000000, 200000000), (250000000, 250000000), (300000000, 300000000),
                  (350000000, 350000000)] initial_state)
     = \<lparr>last_request_time = Some 350000000, request_count = 8\<rparr> \<and>
   fst (attempts [(400000000, 400000000)] \<lparr>last_request_time = Some 350000000, request_count = 8\<rparr>)
     = [False]"
  by (simp add: within_window_def initial_state_def can_make_request_def
      update_request_tracker_def timedelta_minutes_def Let_def)

text \<open>
  C2, as amended. When more than 60 seconds have passed since \<open>last_request_time\<close>,
  the time of the most recent request, the check resets the counter and allows the
  request, and after the tracker update \<open>request_count\<close> is 1.
\<close>

theorem window_rollover_resets:
  assumes "last_request_time s = Some t" and "60 * 1000000 < now - t"
  shows "fst (fst (can_make_request now s)) \<and>
         request_count (snd (can_make_request now s)) = 0 \<and>
         request_count (update_request_tracker now' (snd (can_make_request now s))) = 1 \<and>
         attempts [(now, now')] s = ([True], \<lparr>last_request_time = Some now', request_count = 1\<rparr>)"
proof -
  have c0: "request_count (snd (can_make_request now s)) = 0"
    using assms by (simp add: count_after_check)
  then have ok: "fst (fst (can_make_request now s))"
    by (simp add: allowed_iff_count)
  have "update_request_tracker now' (snd (can_make_request now s))
          = \<lparr>last_request_time = Some now', request_count = 1\<rparr>"
    using c0 by (cases "snd (can_make_request now s)") (simp add: update_request_tracker_def)
  then show ?thesis using c0 ok by (simp add: attempts_Cons Let_def del: attempts.simps(2))
qed

theorem window_rollover_resets_witness:
  "last_request_time \<lparr>last_request_time = Some 0, request_count = 8\<rparr> = Some 0 \<and>
   (60 * 1000000 < (60000001::int) - 0) \<and>
   attempts [(60000001, 60000002)] \<lparr>last_request_time = Some 0, request_count = 8\<rparr>
     = ([True], \<lparr>last_request_time = Some 60000002, request_count = 1\<rparr>)"
proof -
  have h1: "last_request_time \<lparr>last_request_time = Some 0, request_count = 8\<rparr> = Some 0"
    by simp
  have h2: "60 * 1000000 < (60000001::int) - 0" by simp
  from window_rollover_resets[OF h1 h2, of 60000002] show ?thesis by simp
qed

text \<open>
  C2 as stated fails. The session state keeps no start of the window: line 38
  overwrites \<open>last_request_time\<close> at every request. Eight requests at 0, 7, ..., 49
  seconds open a window at 0 and leave the counter at 8 with the last request at 49; the
  check at 61 seconds, more than 60 seconds past the start of the window, is denied.
  And the comparison of line 27 is strict: after one request at 0 the request at
  exactly 60 seconds is allowed without a reset, and \<open>request_count\<close> becomes 2.
\<close>

theorem rollover_counts_from_last_request:
  "attempts [(0, 0), (7000000, 7000000), (14000000, 14000000), (21000000, 21000000),
             (28000000, 28000000), (35000000, 35000000), (42000000, 42000000),
             (49000000, 49000000)] initial_state
     = ([True, True, True, True, True, True, True, True],
        \<lparr>last_request_time = Some 49000000, request_count = 8\<rparr>) \<and>
   can_make_request 61000000 \<lparr>last_request_time = Some 49000000, request_count = 8\<rparr>
     = ((False, limit_message), \<lparr>last_request_time = Some 49000000, request_count = 8\<rparr>) \<and>
   attempts [(0, 0), (60000000, 60000000)] initial_state
     = ([True, True], \<lparr>last_request_time = Some 60000000, request_count = 2\<rparr>)"
  by (simp add: initial_state_def can_make_request_def update_request_tracker_def
      timedelta_minutes_def Let_def)

subsection \<open>Lemmas on the analysis flow\<close>

text \<open>The \<open>.seconds\<close> of an elapsed time between zero and one day is its whole seconds.\<close>

lemma td_seconds_whole:
  "0 \<le> d \<Longrightarrow> d < 86400 * 1000000 \<Longrightarrow> td_seconds d = d div 1000000"
proof -
  assume a: "0 \<le> d" "d < 86400 * 1000000"
  then have "0 \<le> d div 1000000" "d div 1000000 < 86400" by simp_all
  then show ?thesis by (simp add: td_seconds_def)
qed

text \<open>The flow after a successful intake, by the decision of the limiter.\<close>

lemma flow_unfold:
  "image_intake ext f = Inr img \<Longrightarrow>
   analysis_flow ext inp f s =
     (if \<not> fst (fst (can_make_request (t_check inp) s)) then
        (case last_request_time (snd (can_make_request (t_check inp) s)) of
           None \<Rightarrow> (Crashed, snd (can_make_request (t_check inp) s), [])
         | Some t \<Rightarrow> (Denied (snd (fst (can_make_request (t_check inp) s)))
                        (60 - td_seconds (t_wait inp - t)),
                      snd (can_make_request (t_check inp) s), []))
      else if clicked inp then
        (fst (call_model ext inp f img),
         update_request_tracker (t_record inp) (snd (can_make_request (t_check inp) s)),
         snd (call_model ext inp f img))
      else (Idle, snd (can_make_request (t_check inp) s), []))"
  by (simp add: analysis_flow_def Let_def case_prod_beta)

lemma denied_message:
  "\<not> fst (fst (can_make_request now s)) \<Longrightarrow> snd (fst (can_make_request now s)) = limit_message"
  by (simp add: can_make_request_def Let_def split: if_splits)

lemma flow_denied:
  assumes d: "\<not> fst (fst (can_make_request (t_check inp) s))"
      and i: "image_intake ext f = Inr img" and l: "last_request_time s = Some t"
  shows "analysis_flow ext inp f s = (Denied limit_message (60 - td_seconds (t_wait inp - t)), s, [])"
  using d l by (simp add: flow_unfold[OF i] denied_state[OF d] denied_message[OF d])

lemma call_model_outcome:
  "(\<exists>k. fst (call_model ext inp f img) = Failed k) \<or>
   (\<exists>txt rep fn. fst (call_model ext inp f img) = Succeeded txt rep fn)"
  by (simp add: call_model_def Let_def split: sum.split option.split response.split)

lemma flow_Denied_iff:
  assumes "analysis_flow ext inp f s = (Denied msg secs, s', effs)"
  shows "\<not> fst (fst (can_make_request (t_check inp) s)) \<and> (\<exists>img. image_intake ext f = Inr img)"
proof (cases "image_intake ext f")
  case (Inl e)
  with assms show ?thesis by (simp add: analysis_flow_def)
next
  case (Inr img)
  have "\<not> fst (fst (can_make_request (t_check inp) s))"
  proof
    assume ok: "fst (fst (can_make_request (t_check inp) s))"
    with assms have "clicked inp \<and> fst (call_model ext inp f img) = Denied msg secs"
      by (simp add: flow_unfold[OF Inr] split: if_splits)
    with call_model_outcome[of ext inp f img] show False by auto
  qed
  with Inr show ?thesis by simp
qed

text \<open>Line 166 never subtracts from \<open>None\<close>: a denied check has a last request.\<close>

lemma flow_never_crashes: "fst (analysis_flow ext inp f s) \<noteq> Crashed"
proof (cases "image_intake ext f")
  case (Inl e)
  then show ?thesis by (simp add: analysis_flow_def)
next
  case (Inr img)
  show ?thesis
  proof (cases "fst (fst (can_make_request (t_check inp) s))")
    case True
    with call_model_outcome[of ext inp f img] show ?thesis
      by (auto simp: flow_unfold[OF Inr])
  next
    case False
    from denied_last[OF False] obtain t where "last_request_time s = Some t" by blast
    from flow_denied[OF False Inr this] show ?thesis by simp
  qed
qed

text \<open>The substring test is the contiguous-sublist relation.\<close>

lemma contains_sublist: "contains sub s = sublist sub s"
  by (induction s) (auto simp: sublist_Cons_right)

subsection \<open>Reachable states\<close>

lemma run_state:
  "fst (snd (run ext inp upload s)) = s \<or>
   fst (snd (run ext inp upload s)) = snd (can_make_request (t_check inp) s) \<or>
   (fst (fst (can_make_request (t_check inp) s)) \<and>
    fst (snd (run ext inp upload s)) =
      update_request_tracker (t_record inp) (snd (can_make_request (t_check inp) s)))"
proof (cases upload)
  case None
  then show ?thesis by (simp add: run_def)
next
  case (Some f)
  show ?thesis
  proof (cases "image_intake ext f")
    case (Inl e)
    then show ?thesis by (simp add: run_def Some analysis_flow_def)
  next
    case (Inr img)
    show ?thesis by (simp add: run_def Some flow_unfold[OF Inr] split: option.split)
  qed
qed

lemma check_keeps_bounds:
  "0 \<le> request_count s \<Longrightarrow> request_count s \<le> 8 \<Longrightarrow>
   0 \<le> request_count (snd (can_make_request now s)) \<and>
   request_count (snd (can_make_request now s)) \<le> 8"
  by (simp add: count_after_check)

lemma reachable_bounds: "reachable s \<Longrightarrow> 0 \<le> request_count s \<and> request_count s \<le> 8"
proof (induction rule: reachable.induct)
  case reachable_init
  show ?case by (simp add: initial_state_def)
next
  case (reachable_run s ext inp upload)
  let ?s1 = "snd (can_make_request (t_check inp) s)"
  from reachable_run.IH have b1: "0 \<le> request_count ?s1 \<and> request_count ?s1 \<le> 8"
    by (simp add: check_keeps_bounds)
  have b2: "0 \<le> request_count (update_request_tracker (t_record inp) ?s1) \<and>
            request_count (update_request_tracker (t_record inp) ?s1) \<le> 8"
    if "fst (fst (can_make_request (t_check inp) s))"
    using that b1 by (simp add: allowed_iff_count update_request_tracker_def)
  from run_state[of ext inp upload s] reachable_run.IH b1 b2 show ?case by auto
qed

lemma intake_simulated: "image_intake (simulated res) simulated_file = Inr (simulated_image\<lparr>mode := ''RGB'', format := None\<rparr>)"
  by (simp add: image_intake_def simulated_def simulated_file_def simulated_image_def
      to_rgb_def max_size_def)

lemma run_simulated_state:
  "fst (snd (run (simulated res) (click_at c r) (Some simulated_file) s)) =
     (if fst (fst (can_make_request c s)) then update_request_tracker r (snd (can_make_request c s))
      else snd (can_make_request c s))"
  by (simp add: run_def flow_unfold[OF intake_simulated] click_at_def split: option.split)

lemma attempts_reachable: "reachable s \<Longrightarrow> reachable (snd (attempts calls s))"
proof (induction calls arbitrary: s)
  case Nil
  then show ?case by simp
next
  case (Cons call calls)
  obtain c r where call: "call = (c, r)" by (cases call)
  from reachable_run[OF Cons.prems, of "simulated (Inr None)" "click_at c r" "Some simulated_file"]
  have "reachable (if fst (fst (can_make_request c s))
                   then update_request_tracker r (snd (can_make_request c s))
                   else snd (can_make_request c s))"
    by (simp only: run_simulated_state)
  from Cons.IH[OF this] show ?case
    by (simp add: call attempts_Cons Let_def del: attempts.simps)
qed

lemma budget_is_reached: "reachable \<lparr>last_request_time = Some 7000000, request_count = 8\<rparr>"
proof -
  have "snd (attempts [(0, 0), (1000000, 1000000), (2000000, 2000000), (3000000, 3000000),
                     (4000000, 4000000), (5000000, 5000000), (6000000, 6000000),
                     (7000000, 7000000)] initial_state)
        = \<lparr>last_request_time = Some 7000000, request_count = 8\<rparr>"
    by (simp add: initial_state_def can_make_request_def update_request_tracker_def
        timedelta_minutes_def Let_def)
  with attempts_reachable[OF reachable_init] show ?thesis by metis
qed

subsection \<open>Properties of the flow\<close>

text \<open>
  C3. When the flow ends in the rate-limit warning, the number of seconds it tells the
  user to wait is 60 minus the whole seconds elapsed between \<open>last_request_time\<close> and
  the clock reading of line 166, and the counter is at 8 or more. The elapsed time is
  taken to be non-negative and below one day, where the \<open>.seconds\<close> of the timedelta
  is its whole seconds.
\<close>

theorem retry_after_whole_seconds:
  assumes den: "analysis_flow ext inp f s = (Denied msg secs, s', effs)"
      and last: "last_request_time s = Some t"
      and mono: "t \<le> t_wait inp" and day: "t_wait inp - t < 86400 * 1000000"
  shows "secs = 60 - (t_wait inp - t) div 1000000 \<and> request_count s \<ge> 8"
proof -
  from flow_Denied_iff[OF den] obtain img
    where d: "\<not> fst (fst (can_make_request (t_check inp) s))" and i: "image_intake ext f = Inr img"
    by blast
  from flow_denied[OF d i last] den have "secs = 60 - td_seconds (t_wait inp - t)" by simp
  moreover have "td_seconds (t_wait inp - t) = (t_wait inp - t) div 1000000"
    using mono day by (intro td_seconds_whole) simp_all
  moreover have "request_count s \<ge> 8"
    using d denied_state[OF d] by (simp add: allowed_iff_count)
  ultimately show ?thesis by simp
qed

theorem retry_after_whole_seconds_witness:
  "analysis_flow (simulated (Inr None)) ((click_at 10000000 10000000)\<lparr>t_wait := 10500000\<rparr>)
     simulated_file \<lparr>last_request_time = Some 0, request_count = 8\<rparr>
     = (Denied limit_message 50, \<lparr>last_request_time = Some 0, request_count = 8\<rparr>, []) \<and>
   (50::int) = 60 - (10500000 - 0) div 1000000"
proof -
  let ?inp = "(click_at 10000000 10000000)\<lparr>t_wait := 10500000\<rparr>"
  let ?s = "\<lparr>last_request_time = Some 0, request_count = 8\<rparr>"
  have den: "analysis_flow (simulated (Inr None)) ?inp simulated_file ?s
               = (Denied limit_message 50, ?s, [])"
    by (simp add: flow_unfold[OF intake_simulated] click_at_def can_make_request_def
        timedelta_minutes_def td_seconds_def Let_def)
  have last: "last_request_time ?s = Some 0" by simp
  have mono: "0 \<le> t_wait ?inp" by (simp add: click_at_def)
  have day: "t_wait ?inp - 0 < 86400 * 1000000" by (simp add: click_at_def)
  from retry_after_whole_seconds[OF den last mono day] den show ?thesis
    by (simp add: click_at_def)
qed

text \<open>
  C5. When the check denies the request, \<open>can_make_request\<close> leaves the session state
  as it was, and the run ends with that same state and without any external effect: no
  sleep and no call to the model.
\<close>

theorem denied_leaves_no_trace:
  assumes "\<not> fst (fst (can_make_request (t_check inp) s))"
  shows "snd (can_make_request (t_check inp) s) = s \<and> snd (run ext inp upload s) = (s, [])"
proof -
  have st: "snd (can_make_request (t_check inp) s) = s" using assms by (rule denied_state)
  from denied_last[OF assms] obtain t where t: "last_request_time s = Some t" by blast
  have "snd (run ext inp upload s) = (s, [])"
  proof (cases upload)
    case None
    then show ?thesis by (simp add: run_def)
  next
    case (Some f)
    show ?thesis
    proof (cases "image_intake ext f")
      case (Inl e)
      then show ?thesis by (simp add: run_def Some analysis_flow_def)
    next
      case (Inr img)
      from flow_denied[OF assms Inr t] show ?thesis by (simp add: run_def Some)
    qed
  qed
  with st show ?thesis by simp
qed

theorem denied_leaves_no_trace_witness:
  "\<not> fst (fst (can_make_request (t_check (click_at 10000000 10000000))
                 \<lparr>last_request_time = Some 0, request_count = 8\<rparr>)) \<and>
   snd (run (simulated (Inr None)) (click_at 10000000 10000000) (Some simulated_file)
          \<lparr>last_request_time = Some 0, request_count = 8\<rparr>)
     = (\<lparr>last_request_time = Some 0, request_count = 8\<rparr>, [])"
proof -
  have h: "\<not> fst (fst (can_make_request (t_check (click_at 10000000 10000000))
                 \<lparr>last_request_time = Some 0, request_count = 8\<rparr>))"
    by (simp add: click_at_def can_make_request_def timedelta_minutes_def Let_def)
  from denied_leaves_no_trace[OF h] h show ?thesis by simp
qed

text \<open>
  C6. The outcome of the model call, made once lines 181-185 have opened and
  normalised the upload again, in the order of the code: a falsy response, a
  response without text or with empty text gives \<open>EmptyResponse\<close>; an exception whose
  message contains \<open>429\<close>, or \<open>quota\<close> in any letter case, gives
  \<open>ProviderRateLimited\<close>; otherwise one whose message contains \<open>safety\<close> in any
  letter case gives \<open>SafetyRejected\<close>; any other exception gives \<open>ProviderError\<close> with
  the message; a non-empty text gives \<open>Succeeded\<close> with that text.
\<close>

theorem outcome_classification:
  assumes opened: "image_open ext (getvalue f) = Inr opened"
      and conv: "to_rgb ext opened = Inr pil"
      and res: "generate_content ext MEDICAL_PROMPT pil = res"
  shows "(res = Inr None \<or> res = Inr (Some (Response None)) \<or> res = Inr (Some (Response (Some [])))
            \<longrightarrow> fst (call_model ext inp f img) = Failed EmptyResponse) \<and>
         (\<forall>e. res = Inl e \<and> (sublist ''429'' e \<or> sublist ''quota'' (lower e))
            \<longrightarrow> fst (call_model ext inp f img) = Failed ProviderRateLimited) \<and>
         (\<forall>e. res = Inl e \<and> \<not> (sublist ''429'' e \<or> sublist ''quota'' (lower e)) \<and>
               sublist ''safety'' (lower e)
            \<longrightarrow> fst (call_model ext inp f img) = Failed SafetyRejected) \<and>
         (\<forall>e. res = Inl e \<and> \<not> (sublist ''429'' e \<or> sublist ''quota'' (lower e)) \<and>
               \<not> sublist ''safety'' (lower e)
            \<longrightarrow> fst (call_model ext inp f img) = Failed (ProviderError e)) \<and>
         (\<forall>txt. res = Inr (Some (Response (Some txt))) \<and> txt \<noteq> []
            \<longrightarrow> fst (call_model ext inp f img) =
                  Succeeded txt (report_content (ts_generated inp) (name f) (size_wh img) txt)
                    (''medical_analysis_'' @ ts_file inp @ ''.txt''))"
  using opened conv res
  by (simp add: call_model_def classify_error_def contains_sublist Let_def)

theorem outcome_classification_witness:
  "image_open (simulated (Inl ''429 Too Many Requests'')) (getvalue simulated_file) = Inr simulated_image \<and>
   to_rgb (simulated (Inl ''429 Too Many Requests'')) simulated_image
     = Inr (simulated_image\<lparr>mode := ''RGB'', format := None\<rparr>) \<and>
   fst (call_model (simulated (Inl ''429 Too Many Requests'')) (click_at 0 0) simulated_file simulated_image)
     = Failed ProviderRateLimited \<and>
   fst (call_model (simulated (Inl ''Blocked by SAFETY filters'')) (click_at 0 0) simulated_file simulated_image)
     = Failed SafetyRejected \<and>
   fst (call_model (simulated (Inr (Some (Response (Some ''''))))) (click_at 0 0) simulated_file simulated_image)
     = Failed EmptyResponse"
proof -
  let ?m1 = "''429 Too Many Requests''" and ?m2 = "''Blocked by SAFETY filters''"
  let ?pil = "simulated_image\<lparr>mode := ''RGB'', format := None\<rparr>"
  have opened: "image_open (simulated r) (getvalue simulated_file) = Inr simulated_image" for r
    by (simp add: simulated_def)
  have conv: "to_rgb (simulated r) simulated_image = Inr ?pil" for r
    by (simp add: simulated_def to_rgb_def simulated_image_def)
  have res: "generate_content (simulated r) MEDICAL_PROMPT ?pil = r" for r
    by (simp add: simulated_def)
  have sub1: "sublist ''429'' ?m1"
    by code_simp
  have sub2: "\<not> (sublist ''429'' ?m2 \<or> sublist ''quota'' (lower ?m2)) \<and> sublist ''safety'' (lower ?m2)"
    by code_simp
  from outcome_classification[OF opened conv res, of "Inl ?m1" "click_at 0 0" simulated_image] sub1
  have a: "fst (call_model (simulated (Inl ?m1)) (click_at 0 0) simulated_file simulated_image)
             = Failed ProviderRateLimited"
    by blast
  from outcome_classification[OF opened conv res, of "Inl ?m2" "click_at 0 0" simulated_image] sub2
  have b: "fst (call_model (simulated (Inl ?m2)) (click_at 0 0) simulated_file simulated_image)
             = Failed SafetyRejected"
    by blast
  from outcome_classification[OF opened conv res, of "Inr (Some (Response (Some '''')))" "click_at 0 0" simulated_image]
  have c: "fst (call_model (simulated (Inr (Some (Response (Some ''''))))) (click_at 0 0) simulated_file simulated_image)
             = Failed EmptyResponse"
    by blast
  from a b c opened conv show ?thesis by blast
qed

text \<open>
  The tests run in the order of the code: a message with both words is a rate limit.
\<close>

lemma rate_limit_takes_precedence:
  "classify_error ''Quota exceeded; safety'' = ProviderRateLimited"
  by code_simp

text \<open>
  An exception of the second \<open>Image.open\<close> or \<open>convert\<close> (lines 182-185) reaches the
  same handler before any call to the model.
\<close>

lemma exceptions_before_the_call:
  "image_open ext (getvalue f) = Inl e \<or>
   (image_open ext (getvalue f) = Inr opened \<and> to_rgb ext opened = Inl e) \<Longrightarrow>
   call_model ext inp f img = (Failed (classify_error e), [Sleep 3])"
  by (auto simp: call_model_def)

text \<open>
  C7. Intake fails with \<open>TooLarge\<close> exactly when the upload has more than
  5 * 1024 * 1024 bytes: a payload of 6 MiB is rejected, and one of 4 MiB passes the
  size check and is accepted when it opens, converts and displays without an exception.
\<close>

theorem too_large_iff:
  "(image_intake ext f = Inl TooLarge \<longleftrightarrow> length (getvalue f) > 5 * 1024 * 1024) \<and>
   (length (getvalue f) = 6 * 1024 * 1024 \<longrightarrow> image_intake ext f = Inl TooLarge) \<and>
   (length (getvalue f) = 4 * 1024 * 1024 \<longrightarrow> image_intake ext f \<noteq> Inl TooLarge) \<and>
   (length (getvalue f) = 4 * 1024 * 1024 \<and> image_open ext (getvalue f) = Inr opened \<and>
    to_rgb ext opened = Inr img \<and> st_image ext img (caption f) = None
      \<longrightarrow> image_intake ext f = Inr img)"
  by (auto simp: image_intake_def max_size_def Let_def split: sum.splits option.splits)

theorem too_large_iff_witness:
  "length (getvalue \<lparr>name = ''scan.png'', getvalue = replicate (6 * 1024 * 1024) (0::byte)\<rparr>)
     = 6 * 1024 * 1024 \<and>
   image_intake (simulated (Inr None))
     \<lparr>name = ''scan.png'', getvalue = replicate (6 * 1024 * 1024) 0\<rparr> = Inl TooLarge \<and>
   image_intake (simulated (Inr None))
     \<lparr>name = ''scan.png'', getvalue = replicate (4 * 1024 * 1024) 0\<rparr>
     = Inr (simulated_image\<lparr>mode := ''RGB'', format := None\<rparr>)"
proof -
  let ?ext = "simulated (Inr None)"
  let ?big = "\<lparr>name = ''scan.png'', getvalue = replicate (6 * 1024 * 1024) (0::byte)\<rparr>"
  let ?ok = "\<lparr>name = ''scan.png'', getvalue = replicate (4 * 1024 * 1024) (0::byte)\<rparr>"
  let ?pil = "simulated_image\<lparr>mode := ''RGB'', format := None\<rparr>"
  have o: "image_open ?ext (getvalue ?ok) = Inr simulated_image" by (simp add: simulated_def)
  have c: "to_rgb ?ext simulated_image = Inr ?pil"
    by (simp add: simulated_def to_rgb_def simulated_image_def)
  have d: "st_image ?ext ?pil (caption ?ok) = None" by (simp add: simulated_def)
  from too_large_iff[of ?ext ?big simulated_image ?pil]
       too_large_iff[of ?ext ?ok simulated_image ?pil] o c d
  show ?thesis by simp
qed



text \<open>An upload whose header opens and whose pixel data does not decode is rejected.\<close>

lemma truncated_upload_rejected:
  "image_intake truncated simulated_file = Inl (Undecodable ''image file is truncated'')"
  by (simp add: image_intake_def truncated_def simulated_def simulated_file_def
      simulated_image_def to_rgb_def max_size_def)

text \<open>A successful outcome carries the report of its inputs and the text the model returned.\<close>

lemma call_model_succeeded:
  assumes "fst (call_model ext inp f img) = Succeeded txt report fname"
  shows "report = report_content (ts_generated inp) (name f) (size_wh img) txt \<and>
         (\<exists>opened pil. image_open ext (getvalue f) = Inr opened \<and> to_rgb ext opened = Inr pil \<and>
            generate_content ext MEDICAL_PROMPT pil = Inr (Some (Response (Some txt))))"
  using assms
  by (auto simp: call_model_def Let_def split: sum.splits option.splits response.splits if_splits)

text \<open>
  C9. For every successful outcome the report is, byte for byte, the title line, the
  formatted clock reading, the file name, the image size, the response text of the
  model and the three lines of the disclaimer of app.py lines 208-210, in the layout of
  lines 200-211; so it contains the response text and the disclaimer as contiguous
  pieces, and two successful outcomes with the same timestamp, name, size and text
  carry the same report.
\<close>

theorem report_holds_text_and_disclaimer:
  assumes one: "fst (call_model ext inp f img) = Succeeded txt report fname"
      and two: "fst (call_model ext' inp' f' img') = Succeeded txt' report' fname'"
  shows "report =
           ''MEDICAL IMAGE ANALYSIS REPORT\<newline>'' @
           ''Generated: '' @ ts_generated inp @ ''\<newline>'' @
           ''Image: '' @ name f @ ''\<newline>'' @
           ''Size: '' @ py_str (fst (size_wh img)) @ '' '' @ [CHR 0xC3, CHR 0x97] @ '' '' @
             py_str (snd (size_wh img)) @ '' pixels\<newline>'' @
           ''\<newline>'' @
           txt @ ''\<newline>'' @
           ''\<newline>'' @
           ''---\<newline>'' @
           ''DISCLAIMER: This AI-generated analysis is for educational and informational purposes only. \<newline>'' @
           ''It should not be used as a substitute for professional medical advice, diagnosis, or treatment. \<newline>'' @
           ''Always consult qualified healthcare professionals for medical decisions.\<newline>'' \<and>
         sublist txt report \<and>
         sublist
           (''DISCLAIMER: This AI-generated analysis is for educational and informational purposes only. \<newline>'' @
            ''It should not be used as a substitute for professional medical advice, diagnosis, or treatment. \<newline>'' @
            ''Always consult qualified healthcare professionals for medical decisions.\<newline>'') report \<and>
         (\<exists>opened pil. image_open ext (getvalue f) = Inr opened \<and> to_rgb ext opened = Inr pil \<and>
            generate_content ext MEDICAL_PROMPT pil = Inr (Some (Response (Some txt)))) \<and>
         (ts_generated inp = ts_generated inp' \<and> name f = name f' \<and> size_wh img = size_wh img' \<and>
          txt = txt' \<longrightarrow> report = report')"
proof -
  let ?lit = "''DISCLAIMER: This AI-generated analysis is for educational and informational purposes only. \<newline>'' @
            ''It should not be used as a substitute for professional medical advice, diagnosis, or treatment. \<newline>'' @
            ''Always consult qualified healthcare professionals for medical decisions.\<newline>''"
  from call_model_succeeded[OF one]
  have r: "report = report_content (ts_generated inp) (name f) (size_wh img) txt"
    and g: "\<exists>opened pil. image_open ext (getvalue f) = Inr opened \<and> to_rgb ext opened = Inr pil \<and>
            generate_content ext MEDICAL_PROMPT pil = Inr (Some (Response (Some txt)))"
    by blast+
  from call_model_succeeded[OF two]
  have r': "report' = report_content (ts_generated inp') (name f') (size_wh img') txt'"
    by blast
  have d: "DISCLAIMER = ?lit" by (simp add: DISCLAIMER_def)
  have full: "report =
           ''MEDICAL IMAGE ANALYSIS REPORT\<newline>'' @
           ''Generated: '' @ ts_generated inp @ ''\<newline>'' @
           ''Image: '' @ name f @ ''\<newline>'' @
           ''Size: '' @ py_str (fst (size_wh img)) @ '' '' @ [CHR 0xC3, CHR 0x97] @ '' '' @
             py_str (snd (size_wh img)) @ '' pixels\<newline>'' @
           ''\<newline>'' @
           txt @ ''\<newline>'' @
           ''\<newline>'' @
           ''---\<newline>'' @ ?lit"
    unfolding r report_content_def d by simp
  have "\<exists>pre post. report = pre @ txt @ post"
    unfolding r report_content_def by (metis append.assoc)
  then have s1: "sublist txt report" by (auto simp: sublist_def)
  have "\<exists>pre. report = pre @ DISCLAIMER"
    unfolding r report_content_def by (metis append.assoc)
  then have "suffix DISCLAIMER report" by (auto simp: suffix_def)
  then have "sublist DISCLAIMER report" by (rule suffix_imp_sublist)
  then have s2: "sublist ?lit report" unfolding d .
  have det: "ts_generated inp = ts_generated inp' \<and> name f = name f' \<and> size_wh img = size_wh img' \<and>
          txt = txt' \<longrightarrow> report = report'"
    using r r' by simp
  from full s1 s2 g det show ?thesis by blast
qed


theorem report_holds_text_and_disclaimer_witness:
  "fst (call_model (simulated (Inr (Some (Response (Some ''X-ray''))))) (click_at 0 0)
          simulated_file (simulated_image\<lparr>mode := ''RGB'', format := None\<rparr>))
     = Succeeded ''X-ray''
         (''MEDICAL IMAGE ANALYSIS REPORT\<newline>'' @
      ''Generated: 2026-01-01 10:00:00\<newline>'' @
      ''Image: scan.png\<newline>'' @
      ''Size: 100 '' @ [CHR 0xC3, CHR 0x97] @ '' 100 pixels\<newline>'' @
      ''\<newline>'' @
      ''X-ray\<newline>'' @
      ''\<newline>'' @
      ''---\<newline>'' @
      ''DISCLAIMER: This AI-generated analysis is for educational and informational purposes only. \<newline>'' @
      ''It should not be used as a substitute for professional medical advice, diagnosis, or treatment. \<newline>'' @
      ''Always consult qualified healthcare professionals for medical decisions.\<newline>'')
         ''medical_analysis_2026-01-01_10-00-00.txt'' \<and>
   sublist ''X-ray''
     (''MEDICAL IMAGE ANALYSIS REPORT\<newline>'' @
      ''Generated: 2026-01-01 10:00:00\<newline>'' @
      ''Image: scan.png\<newline>'' @
      ''Size: 100 '' @ [CHR 0xC3, CHR 0x97] @ '' 100 pixels\<newline>'' @
      ''\<newline>'' @
      ''X-ray\<newline>'' @
      ''\<newline>'' @
      ''---\<newline>'' @
      ''DISCLAIMER: This AI-generated analysis is for educational and informational purposes only. \<newline>'' @
      ''It should not be used as a substitute for professional medical advice, diagnosis, or treatment. \<newline>'' @
      ''Always consult qualified healthcare professionals for medical decisions.\<newline>'') \<and>
   sublist
     (''DISCLAIMER: This AI-generated analysis is for educational and informational purposes only. \<newline>'' @
      ''It should not be used as a substitute for professional medical advice, diagnosis, or treatment. \<newline>'' @
      ''Always consult qualified healthcare professionals for medical decisions.\<newline>'')
     (''MEDICAL IMAGE ANALYSIS REPORT\<newline>'' @
      ''Generated: 2026-01-01 10:00:00\<newline>'' @
      ''Image: scan.png\<newline>'' @
      ''Size: 100 '' @ [CHR 0xC3, CHR 0x97] @ '' 100 pixels\<newline>'' @
      ''\<newline>'' @
      ''X-ray\<newline>'' @
      ''\<newline>'' @
      ''---\<newline>'' @
      ''DISCLAIMER: This AI-generated analysis is for educational and informational purposes only. \<newline>'' @
      ''It should not be used as a substitute for professional medical advice, diagnosis, or treatment. \<newline>'' @
      ''Always consult qualified healthcare professionals for medical decisions.\<newline>'')"
proof -
  let ?ext = "simulated (Inr (Some (Response (Some ''X-ray''))))"
  let ?img = "simulated_image\<lparr>mode := ''RGB'', format := None\<rparr>"
  let ?rep = "''MEDICAL IMAGE ANALYSIS REPORT\<newline>'' @
      ''Generated: 2026-01-01 10:00:00\<newline>'' @
      ''Image: scan.png\<newline>'' @
      ''Size: 100 '' @ [CHR 0xC3, CHR 0x97] @ '' 100 pixels\<newline>'' @
      ''\<newline>'' @
      ''X-ray\<newline>'' @
      ''\<newline>'' @
      ''---\<newline>'' @
      ''DISCLAIMER: This AI-generated analysis is for educational and informational purposes only. \<newline>'' @
      ''It should not be used as a substitute for professional medical advice, diagnosis, or treatment. \<newline>'' @
      ''Always consult qualified healthcare professionals for medical decisions.\<newline>''"
  have rep: "report_content ''2026-01-01 10:00:00'' ''scan.png'' (100, 100) ''X-ray'' = ?rep"
    by code_simp
  have "fst (call_model ?ext (click_at 0 0) simulated_file ?img)
     = Succeeded ''X-ray''
         (report_content ''2026-01-01 10:00:00'' ''scan.png'' (100, 100) ''X-ray'')
         ''medical_analysis_2026-01-01_10-00-00.txt''"
    by (simp add: call_model_def simulated_def click_at_def simulated_file_def
        simulated_image_def to_rgb_def Let_def)
  then have run: "fst (call_model ?ext (click_at 0 0) simulated_file ?img)
     = Succeeded ''X-ray'' ?rep ''medical_analysis_2026-01-01_10-00-00.txt''"
    by (simp only: rep)
  from report_holds_text_and_disclaimer[OF run run]
  have "sublist ''X-ray'' ?rep \<and> sublist (''DISCLAIMER: This AI-generated analysis is for educational and informational purposes only. \<newline>'' @
      ''It should not be used as a substitute for professional medical advice, diagnosis, or treatment. \<newline>'' @
      ''Always consult qualified healthcare professionals for medical decisions.\<newline>'') ?rep"
    by blast
  with run show ?thesis by blast
qed

text \<open>The report for the text \<open>X-ray\<close> on a 100 by 80 image.\<close>

lemma report_content_example:
  "report_content ''2026-01-01 10:00:00'' ''scan.png'' (100, 80) ''X-ray'' =
     ''MEDICAL IMAGE ANALYSIS REPORT\<newline>'' @
     ''Generated: 2026-01-01 10:00:00\<newline>'' @
     ''Image: scan.png\<newline>'' @
     ''Size: 100 '' @ [CHR 0xC3, CHR 0x97] @ '' 80 pixels\<newline>'' @
     ''\<newline>'' @
     ''X-ray\<newline>'' @
     ''\<newline>'' @
     ''---\<newline>'' @
     ''DISCLAIMER: This AI-generated analysis is for educational and informational purposes only. \<newline>'' @
     ''It should not be used as a substitute for professional medical advice, diagnosis, or treatment. \<newline>'' @
     ''Always consult qualified healthcare professionals for medical decisions.\<newline>''"
  by code_simp

text \<open>
  C10. Every session state reachable by runs of the script has \<open>request_count\<close>
  between 0 and 8, and a state with \<open>request_count\<close> equal to 8 is reachable.
\<close>

theorem request_count_within_budget:
  "(reachable s \<longrightarrow> 0 \<le> request_count s \<and> request_count s \<le> 8) \<and>
   (\<exists>s'. reachable s' \<and> request_count s' = 8)"
proof -
  have "request_count \<lparr>last_request_time = Some 7000000, request_count = 8\<rparr> = 8" by simp
  with budget_is_reached have "\<exists>s'. reachable s' \<and> request_count s' = 8" by blast
  with reachable_bounds show ?thesis by blast
qed

theorem request_count_within_budget_witness:
  "reachable \<lparr>last_request_time = Some 7000000, request_count = 8\<rparr> \<and>
   0 \<le> request_count \<lparr>last_request_time = Some 7000000, request_count = 8\<rparr> \<and>
   request_count \<lparr>last_request_time = Some 7000000, request_count = 8\<rparr> \<le> 8"
  using request_count_within_budget[of "\<lparr>last_request_time = Some 7000000, request_count = 8\<rparr>"]
    budget_is_reached by simp

end
